theory Spec2Isabelle
  imports Main "HOL-Library.Multiset"
begin

section \<open>Errors\<close>

text \<open>
  Every \<^verbatim>\<open>fmt.Errorf\<close> of \<^verbatim>\<open>transformers.go\<close> is a constructor, carrying the kind string
  that the message prints. A run-time panic of Go (a nil pointer dereference) is a value too,
  and so is the error of the GraphQL parser.
\<close>

datatype error =
    InvalidValue string
  | UnknownArgumentValueKind string
  | UnknownSelectionKind
  | UnknownTypeKind string
  | UnknownOperationKind string
  | UnknownDefinitionKind string
  | ExpectedDocument
  | NilPointerDereference
  | SyntaxError string

section \<open>The syntax tree of the parser (package \<^verbatim>\<open>ast\<close>)\<close>

text \<open>
  A scalar node answers \<^verbatim>\<open>GetValue()\<close> with an \<^verbatim>\<open>interface{}\<close>; the serializer switches on
  its dynamic type: a string, a bool, a value with a \<^verbatim>\<open>String()\<close> method (held here by what
  that method returns), or anything else.
\<close>

datatype GoValue = GoString string | GoBool bool | GoStringer string | GoOther

datatype ScalarKind = EnumValue | BooleanValue | IntValue | FloatValue | StringValue

fun kindName :: "ScalarKind \<Rightarrow> string" where
  "kindName EnumValue = ''EnumValue''"
| "kindName BooleanValue = ''BooleanValue''"
| "kindName IntValue = ''IntValue''"
| "kindName FloatValue = ''FloatValue''"
| "kindName StringValue = ''StringValue''"

text \<open>
  A value node, by its kind: a variable holds its name, a list its items, an object its
  fields; \<open>OtherValue k\<close> is a node of any kind \<open>k\<close> the serializer has no case for.
\<close>

datatype Value =
    Variable string
  | ListValue "Value list"
  | ScalarValue ScalarKind GoValue
  | ObjectValue "ObjectField list"
  | OtherValue string
and ObjectField = ObjectField string Value

section \<open>The Value Serializer\<close>

text \<open>\<^verbatim>\<open>strings.Join\<close>.\<close>

fun Join :: "string list \<Rightarrow> string \<Rightarrow> string" where
  "Join [] sep = ''''"
| "Join [x] sep = x"
| "Join (x # y # ys) sep = x @ sep @ Join (y # ys) sep"

text \<open>
  \<^verbatim>\<open>transformFieldArgumentValue\<close>. The two loops append each serialized item to \<open>values\<close>
  and leave at the first error.
\<close>

fun transformFieldArgumentValue :: "Value \<Rightarrow> error + string"
  and transformListItems :: "string list \<Rightarrow> Value list \<Rightarrow> error + string list"
  and transformObjectFields :: "string list \<Rightarrow> ObjectField list \<Rightarrow> error + string list"
where
  "transformFieldArgumentValue (Variable name) = Inr (''$'' @ name)"
| "transformFieldArgumentValue (ListValue list) =
     (case transformListItems [] list of
        Inl err \<Rightarrow> Inl err
      | Inr values \<Rightarrow> Inr (''['' @ Join values '', '' @ '']''))"
| "transformFieldArgumentValue (ScalarValue kind (GoString val)) = Inr val"
| "transformFieldArgumentValue (ScalarValue kind (GoBool val)) =
     (if val then Inr ''true'' else Inr ''fales'')"
| "transformFieldArgumentValue (ScalarValue kind (GoStringer val)) = Inr val"
| "transformFieldArgumentValue (ScalarValue kind GoOther) = Inl (InvalidValue (kindName kind))"
| "transformFieldArgumentValue (ObjectValue obj) =
     (case transformObjectFields [] obj of
        Inl err \<Rightarrow> Inl err
      | Inr values \<Rightarrow> Inr (''{'' @ Join values '', '' @ ''}''))"
| "transformFieldArgumentValue (OtherValue kind) = Inl (UnknownArgumentValueKind kind)"
| "transformListItems values [] = Inr values"
| "transformListItems values (item # rest) =
     (case transformFieldArgumentValue item of
        Inl err \<Rightarrow> Inl err
      | Inr val \<Rightarrow> transformListItems (values @ [val]) rest)"
| "transformObjectFields values [] = Inr values"
| "transformObjectFields values (ObjectField name v # rest) =
     (case transformFieldArgumentValue v of
        Inl err \<Rightarrow> Inl err
      | Inr val \<Rightarrow> transformObjectFields (values @ [name @ '': '' @ val]) rest)"

section \<open>The output model\<close>

text \<open>
  The structs of \<^verbatim>\<open>transformers.go\<close>. A Go slice that the code may leave nil is a
  \<open>list option\<close>: \<open>None\<close> is the nil slice, \<open>Some []\<close> a slice that is present and empty.
  \<^verbatim>\<open>len\<close> reads both as 0.
\<close>

definition len :: "'a list option \<Rightarrow> nat" where
  "len s = (case s of None \<Rightarrow> 0 | Some xs \<Rightarrow> length xs)"

definition elems :: "'a list option \<Rightarrow> 'a list" where
  "elems s = (case s of None \<Rightarrow> [] | Some xs \<Rightarrow> xs)"

datatype FieldArgument = FieldArgument (Name: string) (Value: string)

datatype GraphqlField =
  GraphqlField (IsSpread: bool) (Name: string) (SourceType: string)
    (Arguments: "FieldArgument list option") (SubFields: "GraphqlField list option")

datatype Fragment =
  Fragment (Name: string) (SourceType: string) (Fields: "GraphqlField list")
    (FragmentDependencies: "string list option")

datatype Variable = MkVariable (Name: string) (Type: string)

datatype Operation =
  Operation (Name: string) (Variables: "Variable list option")
    (Fields: "GraphqlField list option")

record TemplateData =
  Fragments :: "Fragment list"
  Queries :: "Operation list"
  Mutations :: "Operation list"

section \<open>Selections, types and definitions of the syntax tree\<close>

text \<open>
  Pointers that the parser always fills (the name of a field, of a spread, of an argument,
  of a fragment) are plain values. The pointers that the parser leaves nil on grammatical
  input are options: the selection set of a field without a body, the type condition of an
  inline fragment written without \<^verbatim>\<open>on T\<close>, the name of an anonymous operation.
  \<open>OtherSelection\<close>, \<open>OtherType k\<close> and \<open>OtherDef k\<close> are nodes of a kind the code has no
  case for.
\<close>

datatype Argument = Argument string Value

datatype Selection =
    Field string "Argument list" "SelectionSet option"
  | FragmentSpread string
  | InlineFragment "string option" SelectionSet
  | OtherSelection
and SelectionSet = SelectionSet "Selection list"

datatype Type = NonNull Type | List Type | Named string | OtherType string

datatype VariableDefinition = VariableDefinition string Type

datatype FragmentDefinition = FragmentDefinition string string SelectionSet

datatype OperationDefinition =
  OperationDefinition string "string option" "VariableDefinition list" "SelectionSet option"

datatype Definition =
    OperationDef OperationDefinition
  | FragmentDef FragmentDefinition
  | OtherDef string

datatype Document = Document string "Definition list"

section \<open>The Selection Transformer\<close>

text \<open>The loop over \<^verbatim>\<open>field.Arguments\<close> inside \<^verbatim>\<open>transformGraphqlField\<close>.\<close>

fun transformArguments :: "FieldArgument list \<Rightarrow> Argument list \<Rightarrow> error + FieldArgument list" where
  "transformArguments arguments [] = Inr arguments"
| "transformArguments arguments (Argument name v # rest) =
     (case transformFieldArgumentValue v of
        Inl err \<Rightarrow> Inl err
      | Inr fieldValue \<Rightarrow> transformArguments (arguments @ [FieldArgument name fieldValue]) rest)"

text \<open>
  \<^verbatim>\<open>transformGraphqlField\<close>: \<open>transformSelections\<close> is its loop, with the slice \<open>flds\<close> (Go's \<^verbatim>\<open>fields\<close>)
  built so far, and \<open>transformSelection\<close> the body of the loop for one selection. An inline
  fragment transforms its selection set first and reads its type condition after, where a
  nil type condition stops the program.
\<close>

fun transformGraphqlField :: "SelectionSet \<Rightarrow> error + GraphqlField list"
  and transformSelections :: "GraphqlField list \<Rightarrow> Selection list \<Rightarrow> error + GraphqlField list"
  and transformSelection :: "Selection \<Rightarrow> error + GraphqlField"
where
  "transformGraphqlField (SelectionSet selections) = transformSelections [] selections"
| "transformSelections flds [] = Inr flds"
| "transformSelections flds (selection # rest) =
     (case transformSelection selection of
        Inl err \<Rightarrow> Inl err
      | Inr transformedField \<Rightarrow> transformSelections (flds @ [transformedField]) rest)"
| "transformSelection (Field name arguments selectionSet) =
     (case (if length arguments > 0
            then (case transformArguments [] arguments of
                    Inl err \<Rightarrow> Inl err
                  | Inr args \<Rightarrow> Inr (Some args))
            else Inr None) of
        Inl err \<Rightarrow> Inl err
      | Inr args \<Rightarrow>
          (case selectionSet of
             None \<Rightarrow> Inr (GraphqlField False name [] args None)
           | Some s \<Rightarrow>
               (case transformGraphqlField s of
                  Inl err \<Rightarrow> Inl err
                | Inr subFields \<Rightarrow> Inr (GraphqlField False name [] args (Some subFields)))))"
| "transformSelection (FragmentSpread name) = Inr (GraphqlField True name [] None None)"
| "transformSelection (InlineFragment typeCondition selectionSet) =
     (case transformGraphqlField selectionSet of
        Inl err \<Rightarrow> Inl err
      | Inr subFields \<Rightarrow>
          (case typeCondition of
             None \<Rightarrow> Inl NilPointerDereference
           | Some sourceType \<Rightarrow> Inr (GraphqlField True [] sourceType None (Some subFields))))"
| "transformSelection OtherSelection = Inl UnknownSelectionKind"

section \<open>The Fragment Dependency Collector\<close>

text \<open>
  \<^verbatim>\<open>gatherFragmentDependencies\<close>: \<open>gatherLoop\<close> is its loop, with the slice \<open>fragmentNames\<close>
  built so far. The result is nil when no name was gathered.
\<close>

fun gatherFragmentDependencies :: "GraphqlField list \<Rightarrow> string list option"
  and gatherLoop :: "string list \<Rightarrow> GraphqlField list \<Rightarrow> string list"
where
  "gatherFragmentDependencies flds =
     (let fragmentNames = gatherLoop [] flds
      in if length fragmentNames = 0 then None else Some fragmentNames)"
| "gatherLoop fragmentNames [] = fragmentNames"
| "gatherLoop fragmentNames (GraphqlField isSpread name sourceType arguments subFields # rest) =
     (let own = (if isSpread \<and> name \<noteq> [] then fragmentNames @ [name] else fragmentNames);
          nested = (case subFields of
                      None \<Rightarrow> own
                    | Some sub \<Rightarrow>
                        if length sub > 0 then own @ elems (gatherFragmentDependencies sub)
                        else own)
      in gatherLoop nested rest)"

section \<open>The Definition Transformers\<close>

fun transformFragment :: "FragmentDefinition \<Rightarrow> error + Fragment" where
  "transformFragment (FragmentDefinition name typeCondition selectionSet) =
     (case transformGraphqlField selectionSet of
        Inl err \<Rightarrow> Inl err
      | Inr flds \<Rightarrow> Inr (Fragment name typeCondition flds (gatherFragmentDependencies flds)))"

text \<open>
  \<^verbatim>\<open>transformVariableType\<close>. Beside a non-nil error Go returns a string as well; every caller
  drops it, and so does the sum.
\<close>

fun transformVariableType :: "Type \<Rightarrow> error + string" where
  "transformVariableType (NonNull t) =
     (case transformVariableType t of Inl err \<Rightarrow> Inl err | Inr subType \<Rightarrow> Inr (subType @ ''!''))"
| "transformVariableType (List t) =
     (case transformVariableType t of
        Inl err \<Rightarrow> Inl err
      | Inr subType \<Rightarrow> Inr (''['' @ subType @ '']''))"
| "transformVariableType (Named name) = Inr name"
| "transformVariableType (OtherType kind) = Inl (UnknownTypeKind kind)"

text \<open>The loop over \<^verbatim>\<open>def.VariableDefinitions\<close> inside \<^verbatim>\<open>transformOperation\<close>.\<close>

fun transformVariableDefinitions :: "Variable list \<Rightarrow> VariableDefinition list \<Rightarrow> error + Variable list" where
  "transformVariableDefinitions variables [] = Inr variables"
| "transformVariableDefinitions variables (VariableDefinition name t # rest) =
     (case transformVariableType t of
        Inl err \<Rightarrow> Inl err
      | Inr varType \<Rightarrow> transformVariableDefinitions (variables @ [MkVariable name varType]) rest)"

text \<open>
  \<^verbatim>\<open>transformOperation\<close>. Its first statement reads \<^verbatim>\<open>def.Name.Value\<close>: on a nil name the
  program stops there.
\<close>

fun transformOperation :: "OperationDefinition \<Rightarrow> error + Operation" where
  "transformOperation (OperationDefinition operation None variableDefinitions selectionSet) =
     Inl NilPointerDereference"
| "transformOperation (OperationDefinition operation (Some name) variableDefinitions selectionSet) =
     (case (if length variableDefinitions > 0
            then (case transformVariableDefinitions [] variableDefinitions of
                    Inl err \<Rightarrow> Inl err
                  | Inr vars \<Rightarrow> Inr (Some vars))
            else Inr None) of
        Inl err \<Rightarrow> Inl err
      | Inr variables \<Rightarrow>
          (case selectionSet of
             None \<Rightarrow> Inr (Operation name variables None)
           | Some s \<Rightarrow>
               (case transformGraphqlField s of
                  Inl err \<Rightarrow> Inl err
                | Inr flds \<Rightarrow> Inr (Operation name variables (Some flds)))))"

section \<open>The Document Transformer\<close>

text \<open>
  \<^verbatim>\<open>transformGraphql\<close> appends to the \<^verbatim>\<open>TemplateData\<close> behind its pointer, so the model
  returns the updated data beside the error (\<open>None\<close> is Go's nil error).
  \<open>transformDefinitions\<close> is the loop over \<^verbatim>\<open>doc.Definitions\<close>. The parser is a library:
  it is the parameter \<open>parse\<close>.
\<close>

fun transformDefinitions :: "TemplateData \<Rightarrow> Definition list \<Rightarrow> TemplateData \<times> error option" where
  "transformDefinitions templateData [] = (templateData, None)"
| "transformDefinitions templateData (OperationDef (OperationDefinition operation name vs s) # rest) =
     (if operation = ''query'' then
        (case transformOperation (OperationDefinition operation name vs s) of
           Inl err \<Rightarrow> (templateData, Some err)
         | Inr query \<Rightarrow>
             transformDefinitions (templateData\<lparr>Queries := Queries templateData @ [query]\<rparr>) rest)
      else if operation = ''mutation'' then
        (case transformOperation (OperationDefinition operation name vs s) of
           Inl err \<Rightarrow> (templateData, Some err)
         | Inr mutation \<Rightarrow>
             transformDefinitions (templateData\<lparr>Mutations := Mutations templateData @ [mutation]\<rparr>) rest)
      else (templateData, Some (UnknownOperationKind operation)))"
| "transformDefinitions templateData (FragmentDef d # rest) =
     (case transformFragment d of
        Inl err \<Rightarrow> (templateData, Some err)
      | Inr frag \<Rightarrow>
          transformDefinitions (templateData\<lparr>Fragments := Fragments templateData @ [frag]\<rparr>) rest)"
| "transformDefinitions templateData (OtherDef kind # rest) =
     (templateData, Some (UnknownDefinitionKind kind))"

definition transformGraphql ::
  "(string \<Rightarrow> error + Document) \<Rightarrow> TemplateData \<Rightarrow> string \<Rightarrow> TemplateData \<times> error option" where
  "transformGraphql parse templateData schema =
     (case parse schema of
        Inl err \<Rightarrow> (templateData, None)
      | Inr (Document kind definitions) \<Rightarrow>
          if kind \<noteq> ''Document'' then (templateData, Some ExpectedDocument)
          else transformDefinitions templateData definitions)"

section \<open>The build of one target\<close>

text \<open>
  \<^verbatim>\<open>sort.SliceStable\<close> of Go's library, by its contract (a stable sort by the given
  \<^verbatim>\<open>less\<close>: elements that \<^verbatim>\<open>less\<close> does not order keep their order), as a stable insertion
  sort. \<open>lessFn\<close> compares two elements, where Go's \<^verbatim>\<open>less\<close> compares the elements at two
  indices.
\<close>

fun insertStable :: "('a \<Rightarrow> 'a \<Rightarrow> bool) \<Rightarrow> 'a \<Rightarrow> 'a list \<Rightarrow> 'a list" where
  "insertStable lessFn x [] = [x]"
| "insertStable lessFn x (y # ys) =
     (if lessFn y x then y # insertStable lessFn x ys else x # y # ys)"

fun SliceStable :: "('a \<Rightarrow> 'a \<Rightarrow> bool) \<Rightarrow> 'a list \<Rightarrow> 'a list" where
  "SliceStable lessFn [] = []"
| "SliceStable lessFn (x # xs) = insertStable lessFn x (SliceStable lessFn xs)"

text \<open>
  The call of \<^verbatim>\<open>sort.SliceStable\<close> in \<^verbatim>\<open>buildTargets\<close>, with its \<^verbatim>\<open>less\<close>: the length of
  \<^verbatim>\<open>FragmentDependencies\<close> on the left is smaller than on the right.
\<close>

definition sortFragments :: "Fragment list \<Rightarrow> Fragment list" where
  "sortFragments fragments =
     SliceStable (\<lambda>left right. len (FragmentDependencies left) < len (FragmentDependencies right))
       fragments"

text \<open>
  \<^verbatim>\<open>buildTargets\<close>, without its files: \<open>schemas\<close> holds the text of the schema files that the
  walk matches, in the order of the walk. Each is transformed into the same \<^verbatim>\<open>templateData\<close>;
  the first error ends the build. \<open>transformSchemas\<close> is that loop; the data that
  \<^verbatim>\<open>buildTargets\<close> hands to the template is its result.
\<close>

fun transformSchemas ::
  "(string \<Rightarrow> error + Document) \<Rightarrow> TemplateData \<Rightarrow> string list \<Rightarrow> TemplateData \<times> error option" where
  "transformSchemas parse templateData [] = (templateData, None)"
| "transformSchemas parse templateData (schema # rest) =
     (case transformGraphql parse templateData schema of
        (templateData', Some err) \<Rightarrow> (templateData', Some err)
      | (templateData', None) \<Rightarrow> transformSchemas parse templateData' rest)"

definition buildTargets :: "(string \<Rightarrow> error + Document) \<Rightarrow> string list \<Rightarrow> error + TemplateData" where
  "buildTargets parse schemas =
     (case transformSchemas parse \<lparr>Fragments = [], Queries = [], Mutations = []\<rparr> schemas of
        (templateData, Some err) \<Rightarrow> Inl err
      | (templateData, None) \<Rightarrow>
          Inr (templateData\<lparr>Fragments := sortFragments (Fragments templateData)\<rparr>))"

section \<open>The casing helpers\<close>










section \<open>What the properties speak of\<close>

text \<open>
  The fragment spreads of a field tree as the specification counts them: a node is a named
  spread when \<open>IsSpread\<close> holds and its name is not empty; an inline fragment has the empty
  name and is not counted, its sub-fields are. \<open>spreadNames\<close> lists the names, a node before
  its sub-fields, and \<open>spreadCount\<close> counts the nodes.
\<close>

fun spreadNames :: "GraphqlField \<Rightarrow> string list" where
  "spreadNames (GraphqlField isSpread name sourceType arguments subFields) =
     (if isSpread \<and> name \<noteq> [] then [name] else []) @
     (case subFields of None \<Rightarrow> [] | Some sub \<Rightarrow> concat (map spreadNames sub))"

fun spreadCount :: "GraphqlField \<Rightarrow> nat" where
  "spreadCount (GraphqlField isSpread name sourceType arguments subFields) =
     (if isSpread \<and> name \<noteq> [] then 1 else 0) +
     (case subFields of None \<Rightarrow> 0 | Some sub \<Rightarrow> sum_list (map spreadCount sub))"

text \<open>
  A type reference built from the named, list and non-null constructors only, and its
  canonical string as the specification gives it.
\<close>

fun known :: "Type \<Rightarrow> bool" where
  "known (NonNull t) = known t"
| "known (List t) = known t"
| "known (Named name) = True"
| "known (OtherType kind) = False"

fun canonical :: "Type \<Rightarrow> string" where
  "canonical (NonNull t) = canonical t @ ''!''"
| "canonical (List t) = ''['' @ canonical t @ '']''"
| "canonical (Named name) = name"
| "canonical (OtherType kind) = []"

text \<open>
  A value that the serializer has a case for, throughout: no node of another kind, no
  scalar whose payload is neither a string, a bool nor a stringer.
\<close>

fun serializable :: "Value \<Rightarrow> bool"
  and serializableField :: "ObjectField \<Rightarrow> bool"
where
  "serializable (Variable name) = True"
| "serializable (ListValue list) = list_all serializable list"
| "serializable (ScalarValue kind payload) = (payload \<noteq> GoOther)"
| "serializable (ObjectValue obj) = list_all serializableField obj"
| "serializable (OtherValue kind) = False"
| "serializableField (ObjectField name v) = serializable v"

fun wfArgument :: "Argument \<Rightarrow> bool" where
  "wfArgument (Argument name v) = serializable v"

text \<open>
  A selection that is a field, a fragment spread or an inline fragment, throughout its
  tree, whose argument values are serializable and whose inline fragments carry a type
  condition.
\<close>

fun wfSelection :: "Selection \<Rightarrow> bool"
  and wfSelectionSet :: "SelectionSet \<Rightarrow> bool"
where
  "wfSelection (Field name arguments selectionSet) =
     (list_all wfArgument arguments \<and>
      (case selectionSet of None \<Rightarrow> True | Some s \<Rightarrow> wfSelectionSet s))"
| "wfSelection (FragmentSpread name) = True"
| "wfSelection (InlineFragment typeCondition selectionSet) =
     (typeCondition \<noteq> None \<and> wfSelectionSet selectionSet)"
| "wfSelection OtherSelection = False"
| "wfSelectionSet (SelectionSet selections) = list_all wfSelection selections"

text \<open>
  \<open>appended td td' nf nq nm\<close>: \<open>td'\<close> is \<open>td\<close> with \<open>nf\<close> fragments, \<open>nq\<close> queries and \<open>nm\<close>
  mutations appended, and nothing else changed.
\<close>

definition appended :: "TemplateData \<Rightarrow> TemplateData \<Rightarrow> nat \<Rightarrow> nat \<Rightarrow> nat \<Rightarrow> bool" where
  "appended td td' nf nq nm \<longleftrightarrow>
     (\<exists>fs qs ms. td' = td\<lparr>Fragments := Fragments td @ fs, Queries := Queries td @ qs,
                            Mutations := Mutations td @ ms\<rparr> \<and>
        length fs = nf \<and> length qs = nq \<and> length ms = nm)"

fun isFragmentDef :: "Definition \<Rightarrow> bool" where
  "isFragmentDef (FragmentDef d) = True"
| "isFragmentDef _ = False"

fun isOperationOf :: "string \<Rightarrow> Definition \<Rightarrow> bool" where
  "isOperationOf keyword (OperationDef (OperationDefinition operation name vs s)) =
     (operation = keyword)"
| "isOperationOf keyword _ = False"

text \<open>
  Sample inputs. \<open>sampleFragments\<close> are four fragments with 2, 0, 1 and 0 dependencies.
  \<open>typeDocument\<close> is what the parser returns for
  \<^verbatim>\<open>fragment F on User { id } type T { x: Int }\<close>; \<open>sampleParser\<close> is a parser on the two
  sample texts, which rejects the unfinished \<^verbatim>\<open>fragment F on User {\<close>.
\<close>

definition sampleFragments :: "Fragment list" where
  "sampleFragments =
     [Fragment ''A'' ''User'' [] (Some [''B'', ''C'']),
      Fragment ''B'' ''User'' [] None,
      Fragment ''D'' ''User'' [] (Some [''B'']),
      Fragment ''C'' ''User'' [] None]"

definition emptyData :: TemplateData where
  "emptyData = \<lparr>Fragments = [], Queries = [], Mutations = []\<rparr>"

definition typeDocument :: Document where
  "typeDocument = Document ''Document''
     [FragmentDef (FragmentDefinition ''F'' ''User'' (SelectionSet [Field ''id'' [] None])),
      OtherDef ''ObjectDefinition'']"

definition sampleParser :: "string \<Rightarrow> error + Document" where
  "sampleParser schema =
     (if schema = ''fragment F on User { id } type T { x: Int }'' then Inr typeDocument
      else Inl (SyntaxError ''Syntax Error GraphQL (1:21) Expected Name, found EOF''))"

text \<open>
  A build of two schema files: \<open>firstFile\<close> defines the fragments A (which spreads B and C)
  and B, \<open>secondFile\<close> the fragments D (which spreads B) and C; \<open>twoFileParser\<close> is a
  parser on these two texts.
\<close>

definition firstFile :: string where
  "firstFile = ''fragment A on User { ...B ...C } fragment B on User { id }''"

definition secondFile :: string where
  "secondFile = ''fragment D on User { ...B } fragment C on User { name }''"

definition twoFileParser :: "string \<Rightarrow> error + Document" where
  "twoFileParser schema =
     (if schema = firstFile then
        Inr (Document ''Document''
          [FragmentDef (FragmentDefinition ''A'' ''User''
             (SelectionSet [FragmentSpread ''B'', FragmentSpread ''C''])),
           FragmentDef (FragmentDefinition ''B'' ''User''
             (SelectionSet [Field ''id'' [] None]))])
      else if schema = secondFile then
        Inr (Document ''Document''
          [FragmentDef (FragmentDefinition ''D'' ''User''
             (SelectionSet [FragmentSpread ''B''])),
           FragmentDef (FragmentDefinition ''C'' ''User''
             (SelectionSet [Field ''name'' [] None]))])
      else Inl (SyntaxError ''Syntax Error GraphQL (1:1) Unexpected EOF''))"




section \<open>Properties\<close>

text \<open>
  C2. A boolean argument value should serialize to \<^verbatim>\<open>true\<close> or \<^verbatim>\<open>false\<close>. The serializer
  returns \<^verbatim>\<open>true\<close> for the value true, and the misspelt token \<^verbatim>\<open>fales\<close> for the value false.
\<close>

theorem boolean_false_serializes_to_fales:
  "transformFieldArgumentValue (ScalarValue BooleanValue (GoBool True)) = Inr ''true'' \<and>
   transformFieldArgumentValue (ScalarValue BooleanValue (GoBool False)) = Inr ''fales'' \<and>
   transformFieldArgumentValue (ScalarValue BooleanValue (GoBool False)) \<noteq> Inr ''false''"
  by simp

subsection \<open>The document transformer on a rejected text\<close>

text \<open>
  C1. A text that the parser rejects should make \<^verbatim>\<open>transformGraphql\<close> return the error. It
  returns no error: on a parse error the code returns nil, and the \<^verbatim>\<open>TemplateData\<close> is
  as it was.
\<close>

theorem parse_error_is_swallowed:
  "parse schema = Inl err \<Longrightarrow> transformGraphql parse templateData schema = (templateData, None)"
  by (simp add: transformGraphql_def)

theorem parse_error_is_swallowed_witness:
  "sampleParser ''fragment F on User {'' =
     Inl (SyntaxError ''Syntax Error GraphQL (1:21) Expected Name, found EOF'') \<and>
   transformGraphql sampleParser emptyData ''fragment F on User {'' = (emptyData, None)"
proof -
  have h: "sampleParser ''fragment F on User {'' =
     Inl (SyntaxError ''Syntax Error GraphQL (1:21) Expected Name, found EOF'')"
    by (simp add: sampleParser_def)
  show ?thesis
    using h parse_error_is_swallowed
      [where parse = sampleParser and schema = "''fragment F on User {''"
         and templateData = emptyData]
    by simp
qed

subsection \<open>A definition of an unknown kind\<close>

lemma transformDefinitions_append:
  "transformDefinitions td (pre @ rest) =
     (case transformDefinitions td pre of
        (td', None) \<Rightarrow> transformDefinitions td' rest
      | (td', Some e) \<Rightarrow> (td', Some e))"
  by (induction td pre rule: transformDefinitions.induct) (auto split: sum.splits)

lemma appended_refl: "appended td td 0 0 0"
  by (simp add: appended_def)

lemma appended_fragment:
  "appended (td\<lparr>Fragments := Fragments td @ [x]\<rparr>) td' nf nq nm \<Longrightarrow>
   appended td td' (Suc nf) nq nm"
  unfolding appended_def
  apply (elim exE conjE)
  subgoal for fs qs ms
    by (rule exI[of _ "x # fs"], rule exI[of _ qs], rule exI[of _ ms]) simp
  done

lemma appended_query:
  "appended (td\<lparr>Queries := Queries td @ [x]\<rparr>) td' nf nq nm \<Longrightarrow>
   appended td td' nf (Suc nq) nm"
  unfolding appended_def
  apply (elim exE conjE)
  subgoal for fs qs ms
    by (rule exI[of _ fs], rule exI[of _ "x # qs"], rule exI[of _ ms]) simp
  done

lemma appended_mutation:
  "appended (td\<lparr>Mutations := Mutations td @ [x]\<rparr>) td' nf nq nm \<Longrightarrow>
   appended td td' nf nq (Suc nm)"
  unfolding appended_def
  apply (elim exE conjE)
  subgoal for fs qs ms
    by (rule exI[of _ fs], rule exI[of _ qs], rule exI[of _ "x # ms"]) simp
  done

lemma transformDefinitions_appends:
  "transformDefinitions td defs = (td', None) \<Longrightarrow>
     appended td td' (length (filter isFragmentDef defs))
       (length (filter (isOperationOf ''query'') defs))
       (length (filter (isOperationOf ''mutation'') defs))"
proof (induction td defs rule: transformDefinitions.induct)
  case (1 templateData)
  then show ?case by (simp add: appended_refl)
next
  case (2 templateData operation name vs s rest)
  then show ?case
    by (auto split: if_splits sum.splits intro: appended_query appended_mutation)
next
  case (3 templateData d rest)
  then show ?case by (auto split: sum.splits intro: appended_fragment)
next
  case (4 templateData kind rest)
  then show ?case by simp
qed

text \<open>
  C3, as amended. When a definition of the document is neither an operation nor a fragment
  definition and the definitions before it transform without error, \<^verbatim>\<open>transformGraphql\<close>
  fails with the unknown-definition-kind error of that definition, and the \<^verbatim>\<open>TemplateData\<close>
  is not rolled back: it is what the definitions before the offending one left, that is its
  former contents with one fragment, query or mutation appended for each of them. Nothing
  of the definitions after it is added.
\<close>

theorem unknown_definition_keeps_earlier_definitions:
  assumes "parse schema = Inr (Document ''Document'' (pre @ OtherDef kind # post))"
    and "transformDefinitions templateData pre = (templateData', None)"
  shows "transformGraphql parse templateData schema =
           (templateData', Some (UnknownDefinitionKind kind)) \<and>
         appended templateData templateData' (length (filter isFragmentDef pre))
           (length (filter (isOperationOf ''query'') pre))
           (length (filter (isOperationOf ''mutation'') pre))"
  using assms transformDefinitions_appends[OF assms(2)]
  by (simp add: transformGraphql_def transformDefinitions_append)

theorem unknown_definition_keeps_earlier_definitions_witness:
  "transformGraphql sampleParser emptyData ''fragment F on User { id } type T { x: Int }'' =
     (\<lparr>Fragments = [Fragment ''F'' ''User'' [GraphqlField False ''id'' [] None None] None],
       Queries = [], Mutations = []\<rparr>,
      Some (UnknownDefinitionKind ''ObjectDefinition'')) \<and>
   appended emptyData
     \<lparr>Fragments = [Fragment ''F'' ''User'' [GraphqlField False ''id'' [] None None] None],
      Queries = [], Mutations = []\<rparr> 1 0 0"
proof -
  have p: "sampleParser ''fragment F on User { id } type T { x: Int }'' =
      Inr (Document ''Document''
        ([FragmentDef (FragmentDefinition ''F'' ''User'' (SelectionSet [Field ''id'' [] None]))] @
         OtherDef ''ObjectDefinition'' # []))"
    by (simp add: sampleParser_def typeDocument_def)
  have t: "transformDefinitions emptyData
      [FragmentDef (FragmentDefinition ''F'' ''User'' (SelectionSet [Field ''id'' [] None]))] =
      (\<lparr>Fragments = [Fragment ''F'' ''User'' [GraphqlField False ''id'' [] None None] None],
        Queries = [], Mutations = []\<rparr>, None)"
    by (simp add: emptyData_def)
  show ?thesis
    using p t unknown_definition_keeps_earlier_definitions
      [where parse = sampleParser
         and schema = "''fragment F on User { id } type T { x: Int }''"
         and pre = "[FragmentDef (FragmentDefinition ''F'' ''User''
                      (SelectionSet [Field ''id'' [] None]))]"
         and kind = "''ObjectDefinition''" and post = "[]" and templateData = emptyData]
    by simp
qed

text \<open>
  The claim as stated fails: after a valid fragment and a type definition, the fragment is
  in the \<^verbatim>\<open>TemplateData\<close> when the error is returned.
\<close>

theorem unknown_definition_retains_fragment:
  "snd (transformGraphql sampleParser emptyData ''fragment F on User { id } type T { x: Int }'') =
     Some (UnknownDefinitionKind ''ObjectDefinition'') \<and>
   fst (transformGraphql sampleParser emptyData ''fragment F on User { id } type T { x: Int }'') \<noteq>
     emptyData \<and>
   Fragments (fst (transformGraphql sampleParser emptyData
       ''fragment F on User { id } type T { x: Int }'')) =
     [Fragment ''F'' ''User'' [GraphqlField False ''id'' [] None None] None]"
  by (simp add: transformGraphql_def sampleParser_def typeDocument_def emptyData_def)

subsection \<open>An anonymous operation\<close>

text \<open>
  C4. An operation without a name should give an \<^verbatim>\<open>Operation\<close> with the empty name. The
  parser leaves the name of an anonymous operation nil, and \<^verbatim>\<open>transformOperation\<close> reads
  \<^verbatim>\<open>def.Name.Value\<close> first: the program stops with a nil pointer dereference, whatever the
  variables and the selection set.
\<close>

theorem anonymous_operation_dereferences_nil:
  "transformOperation (OperationDefinition operation None variableDefinitions selectionSet) =
     Inl NilPointerDereference \<and>
   snd (transformDefinitions emptyData
     [OperationDef (OperationDefinition ''query'' None []
        (Some (SelectionSet [Field ''me'' [] None])))]) = Some NilPointerDereference"
  by simp

subsection \<open>The text of a serialized value\<close>

text \<open>
  C5. The serialized value should be GraphQL value text that parses back to the value. A
  string value is returned as its bare contents, without quotes and without escapes: the
  string \<^verbatim>\<open>"hello world"\<close> gives the two words \<^verbatim>\<open>hello world\<close>, the empty string gives the
  empty text, the list \<^verbatim>\<open>["a", "b"]\<close> gives \<^verbatim>\<open>[a, b]\<close> (a list of two enum values), and
  \<^verbatim>\<open>{key: "val", list: [1, 2]}\<close> gives \<^verbatim>\<open>{key: val, list: [1, 2]}\<close>.
\<close>

theorem string_values_lose_their_quotes:
  "transformFieldArgumentValue (ScalarValue StringValue (GoString ''hello world'')) =
     Inr ''hello world'' \<and>
   transformFieldArgumentValue (ScalarValue StringValue (GoString [])) = Inr [] \<and>
   transformFieldArgumentValue
     (ListValue [ScalarValue StringValue (GoString ''a''),
                 ScalarValue StringValue (GoString ''b'')]) = Inr ''[a, b]'' \<and>
   transformFieldArgumentValue
     (ListValue [ScalarValue EnumValue (GoString ''a''),
                 ScalarValue EnumValue (GoString ''b'')]) = Inr ''[a, b]'' \<and>
   transformFieldArgumentValue
     (ObjectValue
        [ObjectField ''key'' (ScalarValue StringValue (GoString ''val'')),
         ObjectField ''list''
           (ListValue [ScalarValue IntValue (GoString ''1''),
                       ScalarValue IntValue (GoString ''2'')])]) =
     Inr ''{key: val, list: [1, 2]}''"
  by simp

subsection \<open>The fragment dependencies\<close>

lemma gather_spreadNames:
  "gatherFragmentDependencies flds =
     (if concat (map spreadNames flds) = [] then None
      else Some (concat (map spreadNames flds)))"
  "gatherLoop acc flds = acc @ concat (map spreadNames flds)"
proof (induction flds and acc flds rule: gatherFragmentDependencies_gatherLoop.induct)
  case (1 flds)
  then show ?case by simp
next
  case (2 fragmentNames)
  then show ?case by simp
next
  case (3 fragmentNames isSpread name sourceType arguments subFields rest)
  then show ?case
    by (cases subFields) (auto simp: elems_def Let_def)
qed

lemma length_spreadNames: "length (spreadNames f) = spreadCount f"
proof (induction f rule: spreadNames.induct)
  case (1 isSpread name sourceType arguments subFields)
  then show ?case
    by (cases subFields)
      (auto simp: length_concat comp_def intro!: arg_cong[where f = sum_list])
qed

lemma length_concat_spreadNames:
  "length (concat (map spreadNames flds)) = sum_list (map spreadCount flds)"
  by (induction flds) (simp_all add: length_spreadNames)

text \<open>
  C6. \<^verbatim>\<open>gatherFragmentDependencies\<close> returns the names of the named fragment spreads of
  the field trees, in order and with repetitions: as many names as there are named spreads
  in the trees, and the nil slice, never an empty one, when there is none.
\<close>

theorem gatherFragmentDependencies_counts_spreads:
  "gatherFragmentDependencies flds =
     (if sum_list (map spreadCount flds) = 0 then None
      else Some (concat (map spreadNames flds))) \<and>
   len (gatherFragmentDependencies flds) = sum_list (map spreadCount flds) \<and>
   gatherFragmentDependencies flds \<noteq> Some []"
proof -
  have n: "length (concat (map spreadNames flds)) = sum_list (map spreadCount flds)"
    by (rule length_concat_spreadNames)
  have e: "concat (map spreadNames flds) = [] \<longleftrightarrow> sum_list (map spreadCount flds) = 0"
    using n by (metis length_0_conv)
  have g: "gatherFragmentDependencies flds =
     (if sum_list (map spreadCount flds) = 0 then None
      else Some (concat (map spreadNames flds)))"
    using gather_spreadNames(1)[of flds] e by simp
  have l: "len (gatherFragmentDependencies flds) = sum_list (map spreadCount flds)"
    using g n by (simp add: len_def)
  have s: "gatherFragmentDependencies flds \<noteq> Some []"
    using g e by (simp split: if_splits)
  from g l s show ?thesis by blast
qed

theorem gatherFragmentDependencies_counts_spreads_witness:
  "gatherFragmentDependencies
     [GraphqlField False ''id'' [] None None,
      GraphqlField True [] ''User'' None
        (Some [GraphqlField False ''email'' [] None None,
               GraphqlField True ''G'' [] None None]),
      GraphqlField True ''F'' [] None None,
      GraphqlField True ''G'' [] None None] = Some [''G'', ''F'', ''G''] \<and>
   len (gatherFragmentDependencies
     [GraphqlField False ''id'' [] None None,
      GraphqlField True [] ''User'' None
        (Some [GraphqlField False ''email'' [] None None,
               GraphqlField True ''G'' [] None None]),
      GraphqlField True ''F'' [] None None,
      GraphqlField True ''G'' [] None None]) = 3 \<and>
   gatherFragmentDependencies [GraphqlField False ''id'' [] None None] = None"
  using gatherFragmentDependencies_counts_spreads
    [of "[GraphqlField False ''id'' [] None None,
          GraphqlField True [] ''User'' None
            (Some [GraphqlField False ''email'' [] None None,
                   GraphqlField True ''G'' [] None None]),
          GraphqlField True ''F'' [] None None,
          GraphqlField True ''G'' [] None None]"]
    gatherFragmentDependencies_counts_spreads [of "[GraphqlField False ''id'' [] None None]"]
  by (simp add: len_def elems_def)

subsection \<open>The order of the fragments\<close>

lemma insertStable_insort_key:
  "insertStable (\<lambda>l r. key l < key r) x ys = insort_key key x ys"
  by (induction ys) (auto simp: not_less)

lemma SliceStable_sort_key:
  "SliceStable (\<lambda>l r. key l < (key r :: nat)) xs = sort_key key xs"
  by (induction xs) (auto simp: insertStable_insort_key)

lemma sortFragments_sort_key:
  "sortFragments fs = sort_key (\<lambda>f. len (FragmentDependencies f)) fs"
  unfolding sortFragments_def by (rule SliceStable_sort_key)

text \<open>
  C7. When every schema file of the target transforms without error, \<^verbatim>\<open>buildTargets\<close> hands
  to the template the gathered data with its fragments sorted; when one fails, the build
  ends with that error. In the sorted sequence a fragment with fewer dependencies stands
  before every fragment with more, the fragments with one and the same number of
  dependencies stand in the order in which they were gathered, and no fragment is lost or
  added.
\<close>

theorem fragments_sorted_stably_by_dependency_count:
  "(\<forall>i j. i < length (sortFragments fs) \<and> j < length (sortFragments fs) \<and>
       len (FragmentDependencies (sortFragments fs ! i)) <
       len (FragmentDependencies (sortFragments fs ! j)) \<longrightarrow> i < j) \<and>
   (\<forall>k. filter (\<lambda>f. len (FragmentDependencies f) = k) (sortFragments fs) =
        filter (\<lambda>f. len (FragmentDependencies f) = k) fs) \<and>
   mset (sortFragments fs) = mset fs \<and>
   (\<forall>out. buildTargets parse schemas = Inr out \<longrightarrow>
      Fragments out = sortFragments (Fragments (fst (transformSchemas parse
        \<lparr>Fragments = [], Queries = [], Mutations = []\<rparr> schemas)))) \<and>
   (\<forall>td. transformSchemas parse \<lparr>Fragments = [], Queries = [], Mutations = []\<rparr> schemas =
           (td, None) \<longrightarrow>
      buildTargets parse schemas = Inr (td\<lparr>Fragments := sortFragments (Fragments td)\<rparr>)) \<and>
   (\<forall>td err. transformSchemas parse \<lparr>Fragments = [], Queries = [], Mutations = []\<rparr> schemas =
           (td, Some err) \<longrightarrow>
      buildTargets parse schemas = Inl err)"
proof -
  let ?key = "\<lambda>f. len (FragmentDependencies f)"
  let ?ys = "sortFragments fs"
  have s: "sorted (map ?key ?ys)" by (simp add: sortFragments_sort_key)
  have a: "\<forall>i j. i < length ?ys \<and> j < length ?ys \<and> ?key (?ys ! i) < ?key (?ys ! j) \<longrightarrow> i < j"
  proof (intro allI impI, elim conjE)
    fix i j
    assume ij: "i < length ?ys" "j < length ?ys" "?key (?ys ! i) < ?key (?ys ! j)"
    show "i < j"
    proof (rule ccontr)
      assume "\<not> i < j"
      then have "j \<le> i" by simp
      with s ij have "map ?key ?ys ! j \<le> map ?key ?ys ! i"
        by (intro sorted_nth_mono) auto
      with ij show False by simp
    qed
  qed
  have b: "\<forall>k. filter (\<lambda>f. ?key f = k) ?ys = filter (\<lambda>f. ?key f = k) fs"
    by (simp add: sortFragments_sort_key sort_key_stable)
  have c: "mset ?ys = mset fs" by (simp add: sortFragments_sort_key)
  have d: "\<forall>out. buildTargets parse schemas = Inr out \<longrightarrow>
      Fragments out = sortFragments (Fragments (fst (transformSchemas parse
        \<lparr>Fragments = [], Queries = [], Mutations = []\<rparr> schemas)))"
    by (auto simp: buildTargets_def split: prod.splits option.splits)
  have e: "\<forall>td. transformSchemas parse \<lparr>Fragments = [], Queries = [], Mutations = []\<rparr> schemas =
           (td, None) \<longrightarrow>
      buildTargets parse schemas = Inr (td\<lparr>Fragments := sortFragments (Fragments td)\<rparr>)"
    by (simp add: buildTargets_def)
  have f: "\<forall>td err. transformSchemas parse \<lparr>Fragments = [], Queries = [], Mutations = []\<rparr> schemas =
           (td, Some err) \<longrightarrow>
      buildTargets parse schemas = Inl err"
    by (simp add: buildTargets_def)
  from a b c d e f show ?thesis by (intro conjI)
qed

text \<open>
  The build of the two sample files gathers the fragments A, B, D, C, with 2, 0, 1 and 0
  dependencies, and hands over B, C, D, A.
\<close>

theorem fragments_sorted_stably_by_dependency_count_witness:
  "transformSchemas twoFileParser \<lparr>Fragments = [], Queries = [], Mutations = []\<rparr>
       [firstFile, secondFile] =
     (\<lparr>Fragments =
         [Fragment ''A'' ''User''
            [GraphqlField True ''B'' [] None None, GraphqlField True ''C'' [] None None]
            (Some [''B'', ''C'']),
          Fragment ''B'' ''User'' [GraphqlField False ''id'' [] None None] None,
          Fragment ''D'' ''User'' [GraphqlField True ''B'' [] None None] (Some [''B'']),
          Fragment ''C'' ''User'' [GraphqlField False ''name'' [] None None] None],
        Queries = [], Mutations = []\<rparr>, None) \<and>
   buildTargets twoFileParser [firstFile, secondFile] =
     Inr \<lparr>Fragments =
         [Fragment ''B'' ''User'' [GraphqlField False ''id'' [] None None] None,
          Fragment ''C'' ''User'' [GraphqlField False ''name'' [] None None] None,
          Fragment ''D'' ''User'' [GraphqlField True ''B'' [] None None] (Some [''B'']),
          Fragment ''A'' ''User''
            [GraphqlField True ''B'' [] None None, GraphqlField True ''C'' [] None None]
            (Some [''B'', ''C''])],
        Queries = [], Mutations = []\<rparr> \<and>
   mset (sortFragments sampleFragments) = mset sampleFragments \<and>
   filter (\<lambda>f. len (FragmentDependencies f) = 0) (sortFragments sampleFragments) =
     filter (\<lambda>f. len (FragmentDependencies f) = 0) sampleFragments"
proof -
  note t = fragments_sorted_stably_by_dependency_count
    [of sampleFragments twoFileParser "[firstFile, secondFile]"]
  let ?gathered =
    "[Fragment ''A'' ''User''
        [GraphqlField True ''B'' [] None None, GraphqlField True ''C'' [] None None]
        (Some [''B'', ''C'']),
      Fragment ''B'' ''User'' [GraphqlField False ''id'' [] None None] None,
      Fragment ''D'' ''User'' [GraphqlField True ''B'' [] None None] (Some [''B'']),
      Fragment ''C'' ''User'' [GraphqlField False ''name'' [] None None] None]"
  let ?td = "\<lparr>Fragments = ?gathered, Queries = [], Mutations = []\<rparr>"
  have g: "transformSchemas twoFileParser \<lparr>Fragments = [], Queries = [], Mutations = []\<rparr>
       [firstFile, secondFile] = (?td, None)"
    by (simp add: transformGraphql_def twoFileParser_def firstFile_def secondFile_def elems_def)
  have build: "buildTargets twoFileParser [firstFile, secondFile] =
      Inr (?td\<lparr>Fragments := sortFragments (Fragments ?td)\<rparr>)"
    by (rule mp [OF spec [OF conjunct1 [OF conjunct2 [OF conjunct2 [OF conjunct2
          [OF conjunct2 [OF t]]]]]] g])
  have sorted: "sortFragments ?gathered =
     [Fragment ''B'' ''User'' [GraphqlField False ''id'' [] None None] None,
      Fragment ''C'' ''User'' [GraphqlField False ''name'' [] None None] None,
      Fragment ''D'' ''User'' [GraphqlField True ''B'' [] None None] (Some [''B'']),
      Fragment ''A'' ''User''
        [GraphqlField True ''B'' [] None None, GraphqlField True ''C'' [] None None]
        (Some [''B'', ''C''])]"
    by (simp add: sortFragments_def len_def)
  have out: "buildTargets twoFileParser [firstFile, secondFile] =
     Inr \<lparr>Fragments =
         [Fragment ''B'' ''User'' [GraphqlField False ''id'' [] None None] None,
          Fragment ''C'' ''User'' [GraphqlField False ''name'' [] None None] None,
          Fragment ''D'' ''User'' [GraphqlField True ''B'' [] None None] (Some [''B'']),
          Fragment ''A'' ''User''
            [GraphqlField True ''B'' [] None None, GraphqlField True ''C'' [] None None]
            (Some [''B'', ''C''])],
        Queries = [], Mutations = []\<rparr>"
    unfolding build by (simp add: sorted)
  have m: "mset (sortFragments sampleFragments) = mset sampleFragments"
    by (rule conjunct1 [OF conjunct2 [OF conjunct2 [OF t]]])
  have f: "filter (\<lambda>f. len (FragmentDependencies f) = 0) (sortFragments sampleFragments) =
     filter (\<lambda>f. len (FragmentDependencies f) = 0) sampleFragments"
    by (rule spec [OF conjunct1 [OF conjunct2 [OF t]]])
  from g out m f show ?thesis by (intro conjI)
qed

subsection \<open>The type of a variable\<close>

lemma transformVariableType_canonical:
  "known t \<Longrightarrow> transformVariableType t = Inr (canonical t)"
  by (induction t) auto

text \<open>
  C8. For a type reference built from the named, list and non-null constructors,
  \<^verbatim>\<open>transformVariableType\<close> returns the canonical string without error: the name of a named
  type, the inner string in brackets for a list, the inner string followed by \<^verbatim>\<open>!\<close> for a
  non-null type. The type \<^verbatim>\<open>[ID!]!\<close> gives the string \<^verbatim>\<open>[ID!]!\<close>.
\<close>

theorem transformVariableType_serializes:
  "(known t \<longrightarrow>
      transformVariableType t = Inr (canonical t) \<and>
      transformVariableType (List t) = Inr (''['' @ canonical t @ '']'') \<and>
      transformVariableType (NonNull t) = Inr (canonical t @ ''!'')) \<and>
   transformVariableType (Named name) = Inr name \<and>
   transformVariableType (NonNull (List (NonNull (Named ''ID'')))) = Inr ''[ID!]!''"
  by (simp add: transformVariableType_canonical)

theorem transformVariableType_serializes_witness:
  "known (List (NonNull (Named ''ID''))) \<and>
   transformVariableType (List (NonNull (Named ''ID''))) = Inr ''[ID!]'' \<and>
   transformVariableType (NonNull (List (NonNull (Named ''ID'')))) = Inr ''[ID!]!'' \<and>
   transformVariableType (List (List (NonNull (Named ''ID'')))) = Inr ''[[ID!]]''"
proof -
  have k: "known (List (NonNull (Named ''ID'')))" by simp
  show ?thesis
    using k transformVariableType_serializes [of "List (NonNull (Named ''ID''))" "''ID''"]
    by simp
qed

subsection \<open>The order of the selections\<close>

lemma serializable_returns:
  "serializable v \<Longrightarrow> \<exists>s. transformFieldArgumentValue v = Inr s"
  "list_all serializable items \<Longrightarrow> \<exists>r. transformListItems acc items = Inr r"
  "list_all serializableField obj \<Longrightarrow> \<exists>r. transformObjectFields acc obj = Inr r"
proof (induction v and acc items and acc obj
    rule: transformFieldArgumentValue_transformListItems_transformObjectFields.induct)
  case (2 list)
  then show ?case by (auto split: sum.splits)
next
  case (7 obj)
  then show ?case by (auto split: sum.splits)
next
  case (10 "values" item rest)
  then show ?case by (auto split: sum.splits)
next
  case (12 "values" name v rest)
  then show ?case by (auto split: sum.splits)
qed auto

lemma transformArguments_returns:
  "list_all wfArgument arguments \<Longrightarrow> \<exists>r. transformArguments acc arguments = Inr r"
proof (induction acc arguments rule: transformArguments.induct)
  case (2 arguments name v rest)
  then obtain s where "transformFieldArgumentValue v = Inr s"
    using serializable_returns(1) by auto
  with 2 show ?case by simp
qed simp

lemma transformSelections_iff:
  "transformSelections acc selections = Inr out \<longleftrightarrow>
     (\<exists>fs. out = acc @ fs \<and>
        list_all2 (\<lambda>s f. transformSelection s = Inr f) selections fs)"
proof (induction selections arbitrary: acc)
  case Nil
  then show ?case by auto
next
  case (Cons s rest)
  show ?case
  proof (cases "transformSelection s")
    case (Inl e)
    then show ?thesis by (auto simp: list_all2_Cons1)
  next
    case (Inr f)
    then show ?thesis using Cons[of "acc @ [f]"] by (auto simp: list_all2_Cons1)
  qed
qed

lemma wellformed_returns:
  "wfSelectionSet ss \<Longrightarrow> \<exists>out. transformGraphqlField ss = Inr out"
  "list_all wfSelection selections \<Longrightarrow> \<exists>out. transformSelections acc selections = Inr out"
  "wfSelection s \<Longrightarrow> \<exists>f. transformSelection s = Inr f"
proof (induction ss and acc selections and s
    rule: transformGraphqlField_transformSelections_transformSelection.induct)
  case (1 selections)
  then show ?case by simp
next
  case (2 flds)
  then show ?case by simp
next
  case (3 flds selection rest)
  then show ?case by (auto split: sum.splits)
next
  case (4 name arguments selectionSet)
  from "4.prems" obtain r where r: "transformArguments [] arguments = Inr r"
    using transformArguments_returns[of arguments "[]"] by auto
  define b where "b = (if arguments \<noteq> [] then Some r else None)"
  have a: "(if length arguments > 0
            then (case transformArguments [] arguments of
                    Inl err \<Rightarrow> Inl err
                  | Inr args \<Rightarrow> Inr (Some args))
            else Inr None) = Inr b"
    by (simp add: r b_def)
  show ?case
  proof (cases selectionSet)
    case None
    then show ?thesis using a by simp
  next
    case (Some x)
    with "4.prems" have "wfSelectionSet x" by simp
    then obtain out where "transformGraphqlField x = Inr out"
      using "4.IH"[OF a Some] by auto
    then show ?thesis using a Some by simp
  qed
next
  case (5 name)
  then show ?case by simp
next
  case (6 typeCondition selectionSet)
  then show ?case by (auto split: sum.splits)
next
  case 7
  then show ?case by simp
qed

text \<open>
  Where the argument values are ones the serializer has a case for and every inline
  fragment carries a type condition, \<^verbatim>\<open>transformGraphqlField\<close> returns a field sequence as
  long as the selection list, and the field at each index is the transform of the
  selection at that index.
\<close>

lemma transformGraphqlField_index_for_index:
  assumes "list_all wfSelection selections"
  shows "\<exists>flds. transformGraphqlField (SelectionSet selections) = Inr flds \<and>
           length flds = length selections \<and>
           (\<forall>i < length selections. transformSelection (selections ! i) = Inr (flds ! i))"
proof -
  from assms obtain flds where r: "transformGraphqlField (SelectionSet selections) = Inr flds"
    using wellformed_returns(1)[of "SelectionSet selections"] by auto
  then have "list_all2 (\<lambda>s f. transformSelection s = Inr f) selections flds"
    using transformSelections_iff[of "[]" selections flds] by simp
  then show ?thesis using r by (auto simp: list_all2_conv_all_nth)
qed

lemma transformGraphqlField_index_for_index_example:
  "list_all wfSelection
     [Field ''id'' [] None,
      InlineFragment (Some ''User'') (SelectionSet [Field ''email'' [] None]),
      FragmentSpread ''UserFields''] \<and>
   transformGraphqlField (SelectionSet
     [Field ''id'' [] None,
      InlineFragment (Some ''User'') (SelectionSet [Field ''email'' [] None]),
      FragmentSpread ''UserFields'']) =
     Inr [GraphqlField False ''id'' [] None None,
          GraphqlField True [] ''User'' None (Some [GraphqlField False ''email'' [] None None]),
          GraphqlField True ''UserFields'' [] None None]"
proof -
  have w: "list_all wfSelection
     [Field ''id'' [] None,
      InlineFragment (Some ''User'') (SelectionSet [Field ''email'' [] None]),
      FragmentSpread ''UserFields'']"
    by simp
  show ?thesis
    using w transformGraphqlField_index_for_index [OF w] by simp
qed

text \<open>
  C9. Every selection set of fields, fragment spreads and inline fragments should give a
  field sequence of the same length, index for index. An inline fragment written without
  a type condition, as in \<^verbatim>\<open>{ id ... { name } }\<close>, is left with a nil type condition by the
  parser, and \<^verbatim>\<open>transformGraphqlField\<close> reads \<^verbatim>\<open>inlineFragment.TypeCondition.Name.Value\<close>
  with no nil check: the program stops with a nil pointer dereference and no field
  sequence is returned, for this selection set and for every one that holds such an inline
  fragment after selections that transform.
\<close>

theorem inline_fragment_without_type_condition_fails:
  "transformGraphqlField
     (SelectionSet [InlineFragment None (SelectionSet [Field ''id'' [] None])]) =
     Inl NilPointerDereference \<and>
   transformGraphqlField
     (SelectionSet [Field ''id'' [] None,
                    InlineFragment None (SelectionSet [Field ''name'' [] None])]) =
     Inl NilPointerDereference \<and>
   transformSelection (InlineFragment None (SelectionSet selections)) \<noteq>
     Inr (GraphqlField isSpread name sourceType arguments subFields)"
  by (simp split: sum.splits)

subsection \<open>The words of an identifier\<close>













end
